theory Spec2Isabelle
  imports Main "HOL-Library.Sublist"
begin

section \<open>PortfolioPal backend: a shallow embedding\<close>

text \<open>
  The repository holds two FastAPI applications. \<^verbatim>\<open>src/main.py\<close> is the text-generation
  service (\<^verbatim>\<open>ai_generate\<close> and the two routes that build a prompt for it);
  \<^verbatim>\<open>src/backend/main.py\<close> is the authentication backend (signup, login, password reset,
  admin overview) together with its own, template-only text endpoints, on top of the document
  store adapter of \<^verbatim>\<open>src/backend/database.py\<close>.

  Strings are byte lists. Time is an integer number of seconds; every reading of
  \<^verbatim>\<open>datetime.utcnow()\<close> made while one request is handled returns the same value, which the
  request carries in its environment.
\<close>

subsection \<open>Python strings\<close>

definition NL :: string where
  "NL = [CHR 0x0A]"

text \<open>\<^verbatim>\<open>sep.join(xs)\<close>.\<close>

fun join :: "string \<Rightarrow> string list \<Rightarrow> string" where
  "join sep [] = []"
| "join sep [x] = x"
| "join sep (x # y # ys) = x @ sep @ join sep (y # ys)"

text \<open>
  \<^verbatim>\<open>str.lower()\<close> on the ASCII letters; bytes outside \<open>A\<close>..\<open>Z\<close> are left as they are
  (letters outside ASCII are not modelled).
\<close>

definition lower_char :: "char \<Rightarrow> char" where
  "lower_char c =
     (let n = (of_char c :: nat) in if 65 \<le> n \<and> n \<le> 90 then char_of (n + 32) else c)"

definition lower :: "string \<Rightarrow> string" where
  "lower s = map lower_char s"

subsection \<open>The text-generation service (\<^verbatim>\<open>src/main.py\<close>)\<close>

text \<open>
  The provider client is the one call the program makes on it:
  \<^verbatim>\<open>client.chat.completions.create(...)\<close> followed by
  \<^verbatim>\<open>resp.choices[0].message.content\<close>. \<open>None\<close> stands for any exception raised on the
  way, \<open>Some None\<close> for a response whose content is \<^verbatim>\<open>None\<close>.
\<close>

type_synonym client = "string \<Rightarrow> string option option"

text \<open>
  What \<^verbatim>\<open>get_openai_client\<close> reads from its surroundings: the environment variable and
  the outcome of importing the provider package and constructing the client
  (\<open>None\<close> when that raises).
\<close>

record provider_env =
  OPENAI_API_KEY :: "string option"
  OpenAI :: "string \<Rightarrow> client option"

definition get_openai_client :: "provider_env \<Rightarrow> client option" where
  "get_openai_client pe =
     (case OPENAI_API_KEY pe of
        None \<Rightarrow> None
      | Some api_key \<Rightarrow> if api_key = [] then None else OpenAI pe api_key)"

definition fallback_lines :: "string list" where
  "fallback_lines =
     [''Thanks for trying PortfolioPal!'',
      ''This is a locally generated sample response because no AI key was detected.'',
      ''Add OPENAI_API_KEY to enable real AI results.'',
      NL @ ''---'' @ NL]"

definition fallback :: "string \<Rightarrow> string" where
  "fallback prompt = ''[AI Fallback] '' @ join NL (fallback_lines @ [take 1000 prompt])"

definition ai_generate :: "provider_env \<Rightarrow> string \<Rightarrow> string" where
  "ai_generate pe prompt =
     (case get_openai_client pe of
        None \<Rightarrow> fallback prompt
      | Some client \<Rightarrow>
          (case client prompt of
             None \<Rightarrow> fallback prompt
           | Some content \<Rightarrow> (case content of None \<Rightarrow> [] | Some s \<Rightarrow> s)))"

text \<open>The request body of the root application's project writer.\<close>

record ProjectInput =
  title :: string
  description :: string
  technologies :: "string list option"
  audience :: "string option"
  tone :: "string option"

text \<open>\<^verbatim>\<open>x or default\<close> on an optional string: \<^verbatim>\<open>None\<close> and the empty string are false.\<close>

definition str_or :: "string option \<Rightarrow> string \<Rightarrow> string" where
  "str_or x d = (case x of None \<Rightarrow> d | Some s \<Rightarrow> if s = [] then d else s)"

text \<open>An optional string inside an f-string: \<^verbatim>\<open>None\<close> prints as \<^verbatim>\<open>None\<close>.\<close>

definition fmt_opt :: "string option \<Rightarrow> string" where
  "fmt_opt x = (case x of None \<Rightarrow> ''None'' | Some s \<Rightarrow> s)"

definition project_prompt :: "ProjectInput \<Rightarrow> string" where
  "project_prompt body =
     ''Write a compelling, structured project description.'' @ NL
     @ ''Title: '' @ title body @ NL
     @ ''Audience: '' @ str_or (audience body) ''Hiring managers and peers'' @ NL
     @ ''Tone: '' @ fmt_opt (tone body) @ NL
     @ ''Technologies: ''
     @ (case technologies body of
          None \<Rightarrow> ''N/A''
        | Some ts \<Rightarrow> if ts = [] then ''N/A'' else join '', '' ts) @ NL
     @ ''Base description: '' @ description body @ NL @ NL
     @ ''Output format: '' @ NL
     @ ''- One-sentence hook'' @ NL @ ''- Problem & Motivation'' @ NL
     @ ''- Approach & Architecture'' @ NL @ ''- Key Features (bullet list)'' @ NL
     @ ''- Tech Stack'' @ NL @ ''- Impact & Results'' @ NL @ ''- What I learned'' @ NL"

definition generate_project_writer :: "provider_env \<Rightarrow> ProjectInput \<Rightarrow> string" where
  "generate_project_writer pe body = ai_generate pe (project_prompt body)"

subsection \<open>The template-only project writer of \<^verbatim>\<open>src/backend/main.py\<close>\<close>

record backend_ProjectInput =
  b_title :: string
  b_description :: string
  b_technologies :: "string list"
  b_audience :: string
  b_tone :: string

definition project_writer :: "backend_ProjectInput \<Rightarrow> string" where
  "project_writer payload =
     ''Project: '' @ b_title payload @ NL
     @ ''Audience: '' @ b_audience payload @ NL
     @ ''Tone: '' @ b_tone payload @ NL
     @ ''Tech: '' @ join '', '' (b_technologies payload) @ NL @ NL
     @ b_description payload @ NL @ NL
     @ ''Key Points:'' @ NL @ ''- Impact'' @ NL @ ''- Challenges'' @ NL @ ''- Results''"

subsection \<open>Values, documents and the store (\<^verbatim>\<open>src/backend/database.py\<close>)\<close>

text \<open>
  The values the program stores in documents and in token payloads: \<^verbatim>\<open>None\<close>, strings,
  \<^verbatim>\<open>ObjectId\<close>s (by their 24 hexadecimal digits) and \<^verbatim>\<open>datetime\<close>s.
\<close>

datatype val = VNone | VStr string | VOid string | VTime int

type_synonym dict = "string \<rightharpoonup> val"

text \<open>\<^verbatim>\<open>d.get(k)\<close> and \<^verbatim>\<open>d.get(k, default)\<close>.\<close>

definition dict_get :: "dict \<Rightarrow> string \<Rightarrow> val" where
  "dict_get d k = (case d k of None \<Rightarrow> VNone | Some v \<Rightarrow> v)"

definition dict_get_default :: "dict \<Rightarrow> string \<Rightarrow> val \<Rightarrow> val" where
  "dict_get_default d k v = (case d k of None \<Rightarrow> v | Some x \<Rightarrow> x)"

text \<open>Python truthiness of a value.\<close>

fun truthy :: "val \<Rightarrow> bool" where
  "truthy VNone = False"
| "truthy (VStr s) = (s \<noteq> [])"
| "truthy (VOid s) = True"
| "truthy (VTime t) = True"

text \<open>
  The exceptions the handlers can end with. \<open>HTTPException status detail\<close> is the only one
  that FastAPI turns into the response of that status; any other reaches the caller as a
  server error.
\<close>

datatype exn =
    HTTPException nat string
  | InvalidId
  | KeyError string
  | TypeError
  | AttributeError
  | UnknownHashError
  | MalformedHashError
  | DuplicateKeyError

text \<open>
  A stored document: the store gives every document an \<^verbatim>\<open>ObjectId\<close> under \<^verbatim>\<open>_id\<close>
  (no caller of \<^verbatim>\<open>create_document\<close> passes one), kept here beside the other fields.
\<close>

record document =
  oid :: string
  doc_fields :: dict

text \<open>A collection is the list of its documents in insertion order; \<^verbatim>\<open>db[name]\<close>.\<close>

type_synonym database = "string \<Rightarrow> document list"

definition lookup_field :: "document \<Rightarrow> string \<Rightarrow> val option" where
  "lookup_field d k = (if k = ''_id'' then Some (VOid (oid d)) else doc_fields d k)"

text \<open>An equality filter \<^verbatim>\<open>{k1: v1, ...}\<close>; the empty filter matches every document.\<close>

definition matches :: "(string \<times> val) list \<Rightarrow> document \<Rightarrow> bool" where
  "matches flt d = list_all (\<lambda>(k, v). lookup_field d k = Some v) flt"

text \<open>The dictionary handed to the program after \<^verbatim>\<open>doc["_id"] = str(doc["_id"])\<close>.\<close>

definition stringified :: "document \<Rightarrow> dict" where
  "stringified d = (doc_fields d)(''_id'' \<mapsto> VStr (oid d))"

definition is_hex :: "char \<Rightarrow> bool" where
  "is_hex c =
     (let n = (of_char c :: nat)
      in (48 \<le> n \<and> n \<le> 57) \<or> (97 \<le> n \<and> n \<le> 102) \<or> (65 \<le> n \<and> n \<le> 70))"

text \<open>
  \<^verbatim>\<open>ObjectId(s)\<close> on a string: 24 hexadecimal digits, or \<^verbatim>\<open>InvalidId\<close>. Its \<^verbatim>\<open>str\<close>
  is in lower case.
\<close>

definition ObjectId :: "string \<Rightarrow> exn + val" where
  "ObjectId s =
     (if length s = 24 \<and> list_all is_hex s then Inr (VOid (lower s)) else Inl InvalidId)"

text \<open>
  What one request reads from outside the program: the clock, the \<^verbatim>\<open>ObjectId\<close> the driver
  generates for its \<open>k\<close>-th insert, the salt drawn by the password hasher,
  \<^verbatim>\<open>secrets.token_urlsafe(n)\<close> and \<^verbatim>\<open>request.client.host\<close>.
\<close>

record ctx =
  utcnow :: int
  new_oid :: "nat \<Rightarrow> string"
  salt :: string
  token_urlsafe :: "nat \<Rightarrow> string"
  client_host :: string

text \<open>\<^verbatim>\<open>col.insert_one(data)\<close>: the store refuses an \<^verbatim>\<open>_id\<close> that the collection already has.\<close>

definition insert_one :: "database \<Rightarrow> string \<Rightarrow> string \<Rightarrow> dict \<Rightarrow> (exn + string) \<times> database" where
  "insert_one db collection_name new data =
     (if list_ex (\<lambda>d. oid d = new) (db collection_name) then (Inl DuplicateKeyError, db)
      else (Inr new,
            db(collection_name := db collection_name @ [\<lparr>oid = new, doc_fields = data\<rparr>])))"

definition create_document ::
  "database \<Rightarrow> ctx \<Rightarrow> nat \<Rightarrow> string \<Rightarrow> dict \<Rightarrow> (exn + string) \<times> database" where
  "create_document db c k collection_name data =
     insert_one db collection_name (new_oid c k)
       (data(''created_at'' \<mapsto> dict_get_default data ''created_at'' (VTime (utcnow c)),
             ''updated_at'' \<mapsto> dict_get_default data ''updated_at'' (VTime (utcnow c))))"

definition get_documents :: "database \<Rightarrow> string \<Rightarrow> (string \<times> val) list \<Rightarrow> nat \<Rightarrow> dict list" where
  "get_documents db collection_name filter_dict limit =
     map stringified
       (let cur = filter (matches filter_dict) (db collection_name)
        in if limit \<noteq> 0 then take limit cur else cur)"

definition get_one :: "database \<Rightarrow> string \<Rightarrow> (string \<times> val) list \<Rightarrow> dict option" where
  "get_one db collection_name filter_dict =
     map_option stringified (find (matches filter_dict) (db collection_name))"

text \<open>\<^verbatim>\<open>col.update_one(flt, {"$set": upd})\<close>: the first matching document, if any.\<close>

fun update_one :: "(string \<times> val) list \<Rightarrow> dict \<Rightarrow> document list \<Rightarrow> document list" where
  "update_one flt upd [] = []"
| "update_one flt upd (d # ds) =
     (if matches flt d then d\<lparr>doc_fields := doc_fields d ++ upd\<rparr> # ds
      else d # update_one flt upd ds)"

subsection \<open>Configuration and libraries (\<^verbatim>\<open>src/backend/main.py\<close>)\<close>

record environ =
  env_SECRET_KEY :: "string option"
  env_ACCESS_TOKEN_EXPIRE_MINUTES :: "int option"
  env_PRIMARY_ADMIN_EMAIL :: "string option"

definition SECRET_KEY :: "environ \<Rightarrow> string" where
  "SECRET_KEY E = (case env_SECRET_KEY E of None \<Rightarrow> ''dev-secret-change-me'' | Some s \<Rightarrow> s)"

definition ALGORITHM :: string where
  "ALGORITHM = ''HS256''"

definition ACCESS_TOKEN_EXPIRE_MINUTES :: "environ \<Rightarrow> int" where
  "ACCESS_TOKEN_EXPIRE_MINUTES E =
     (case env_ACCESS_TOKEN_EXPIRE_MINUTES E of None \<Rightarrow> 60 | Some m \<Rightarrow> m)"


text \<open>
  The token library (\<^verbatim>\<open>jose.jwt\<close>) and the hash behind the password context are not part
  of the repository, so the handlers take them as parameters. The program never looks inside a
  token: it only hands to \<^verbatim>\<open>jwt.decode\<close> what it received, and returns what
  \<^verbatim>\<open>jwt.encode\<close> produced, so the token type is left open. \<^verbatim>\<open>jwt.decode\<close> reads the
  clock for the expiry check and raises \<^verbatim>\<open>JWTError\<close> or one of its subclasses.
\<close>

datatype jwt_error = JWTError | ExpiredSignatureError | JWTClaimsError

record 't libs =
  jwt_encode :: "dict \<Rightarrow> string \<Rightarrow> string \<Rightarrow> 't"
  jwt_decode :: "'t \<Rightarrow> string \<Rightarrow> string list \<Rightarrow> int \<Rightarrow> jwt_error + dict"
  bcrypt_hash :: "string \<Rightarrow> string \<Rightarrow> string"
  bcrypt_verify :: "string \<Rightarrow> string \<Rightarrow> exn + bool"

text \<open>
  \<^verbatim>\<open>pwd_context.verify(secret, hash)\<close> of a context with the single scheme bcrypt, as the
  library documents it: a hash of \<^verbatim>\<open>None\<close> gives \<^verbatim>\<open>False\<close>; a string is first identified
  by its prefix, and one that no scheme of the context identifies raises
  \<^verbatim>\<open>UnknownHashError\<close>; an identified hash goes to the scheme's own verify, which may raise
  on a malformed rest.
\<close>

definition bcrypt_identify :: "string \<Rightarrow> bool" where
  "bcrypt_identify h = list_ex (\<lambda>ident. prefix ident h) [''$2$'', ''$2a$'', ''$2x$'', ''$2y$'', ''$2b$'']"

definition pwd_context_verify :: "'t libs \<Rightarrow> string \<Rightarrow> val \<Rightarrow> exn + bool" where
  "pwd_context_verify L secret hash =
     (case hash of
        VNone \<Rightarrow> Inr False
      | VStr h \<Rightarrow> if bcrypt_identify h then bcrypt_verify L secret h else Inl UnknownHashError
      | VOid x \<Rightarrow> Inl TypeError
      | VTime t \<Rightarrow> Inl TypeError)"

subsection \<open>Credentials and tokens\<close>

definition verify_password :: "'t libs \<Rightarrow> string \<Rightarrow> val \<Rightarrow> exn + bool" where
  "verify_password L plain_password hashed_password =
     pwd_context_verify L plain_password hashed_password"

definition get_password_hash :: "'t libs \<Rightarrow> ctx \<Rightarrow> string \<Rightarrow> string" where
  "get_password_hash L c password = bcrypt_hash L (salt c) password"

text \<open>\<^verbatim>\<open>expires_delta or timedelta(minutes=...)\<close>: a zero delta is false in Python.\<close>

definition create_access_token :: "'t libs \<Rightarrow> environ \<Rightarrow> ctx \<Rightarrow> dict \<Rightarrow> int option \<Rightarrow> 't" where
  "create_access_token L E c data expires_delta =
     (let expire = utcnow c +
            (case expires_delta of
               None \<Rightarrow> 60 * ACCESS_TOKEN_EXPIRE_MINUTES E
             | Some d \<Rightarrow> if d = 0 then 60 * ACCESS_TOKEN_EXPIRE_MINUTES E else d);
          to_encode = data(''exp'' \<mapsto> VTime expire)
      in jwt_encode L to_encode (SECRET_KEY E) ALGORITHM)"


text \<open>
  \<^verbatim>\<open>ObjectId(x) if isinstance(x, str) and len(x) == 24 else x\<close>, as written in
  \<^verbatim>\<open>get_current_user\<close> and in \<^verbatim>\<open>reset_password\<close>.
\<close>

definition filter_id :: "val \<Rightarrow> exn + val" where
  "filter_id x = (case x of VStr s \<Rightarrow> if length s = 24 then ObjectId s else Inr x | _ \<Rightarrow> Inr x)"



subsection \<open>Auth routes\<close>

record UserCreate =
  email :: string
  password :: string
  name :: "string option"

record OAuth2PasswordRequestForm =
  username :: string
  form_password :: string

record ForgotPasswordRequest =
  forgot_email :: string

record ResetPasswordRequest =
  token :: string
  new_password :: string

record 't Token =
  access_token :: 't
  token_type :: string
  csrf_token :: string

definition signup ::
  "'t libs \<Rightarrow> environ \<Rightarrow> database \<Rightarrow> ctx \<Rightarrow> UserCreate \<Rightarrow> (exn + 't Token) \<times> database" where
  "signup L E db c payload =
     (case get_one db ''user'' [(''email'', VStr (lower (email payload)))] of
        Some existing \<Rightarrow> (Inl (HTTPException 400 ''Email already registered''), db)
      | None \<Rightarrow>
          (let hashed = get_password_hash L c (password payload)
           in case create_document db c 0 ''user''
                     [''email'' \<mapsto> VStr (lower (email payload)),
                      ''password'' \<mapsto> VStr hashed,
                      ''name'' \<mapsto> VStr (str_or (name payload) [])] of
                (Inl e, db1) \<Rightarrow> (Inl e, db1)
              | (Inr user_id, db1) \<Rightarrow>
                  (let tok = create_access_token L E c
                               [''user_id'' \<mapsto> VStr user_id,
                                ''email'' \<mapsto> VStr (lower (email payload))] None;
                       csrf = token_urlsafe c 16
                   in case create_document db1 c 1 ''activity''
                             [''user_id'' \<mapsto> VStr user_id,
                              ''type'' \<mapsto> VStr ''signup'',
                              ''ip'' \<mapsto> VStr (client_host c)] of
                        (Inl e, db2) \<Rightarrow> (Inl e, db2)
                      | (Inr a, db2) \<Rightarrow>
                          (Inr \<lparr>access_token = tok, token_type = ''bearer'', csrf_token = csrf\<rparr>,
                           db2))))"

definition login ::
  "'t libs \<Rightarrow> environ \<Rightarrow> database \<Rightarrow> ctx \<Rightarrow> OAuth2PasswordRequestForm
     \<Rightarrow> (exn + 't Token) \<times> database" where
  "login L E db c form_data =
     (case get_one db ''user'' [(''email'', VStr (lower (username form_data)))] of
        None \<Rightarrow> (Inl (HTTPException 400 ''Incorrect email or password''), db)
      | Some user \<Rightarrow>
          (case verify_password L (form_password form_data)
                  (dict_get_default user ''password'' (VStr [])) of
             Inl e \<Rightarrow> (Inl e, db)
           | Inr ok \<Rightarrow>
               if \<not> ok then (Inl (HTTPException 400 ''Incorrect email or password''), db)
               else (case user ''_id'' of
                       None \<Rightarrow> (Inl (KeyError ''_id''), db)
                     | Some uid \<Rightarrow>
                         (case user ''email'' of
                            None \<Rightarrow> (Inl (KeyError ''email''), db)
                          | Some em \<Rightarrow>
                              (let tok = create_access_token L E c
                                           [''user_id'' \<mapsto> uid, ''email'' \<mapsto> em] None;
                                   csrf = token_urlsafe c 16
                               in case create_document db c 0 ''activity''
                                         [''user_id'' \<mapsto> uid,
                                          ''type'' \<mapsto> VStr ''login'',
                                          ''ip'' \<mapsto> VStr (client_host c)] of
                                    (Inl e, db1) \<Rightarrow> (Inl e, db1)
                                  | (Inr a, db1) \<Rightarrow>
                                      (Inr \<lparr>access_token = tok, token_type = ''bearer'',
                                            csrf_token = csrf\<rparr>, db1))))))"

text \<open>The response of \<^verbatim>\<open>forgot_password\<close>: the message and, when present, the token.\<close>

definition forgot_password ::
  "database \<Rightarrow> ctx \<Rightarrow> ForgotPasswordRequest \<Rightarrow> (exn + string \<times> string option) \<times> database" where
  "forgot_password db c payload =
     (case get_one db ''user'' [(''email'', VStr (lower (forgot_email payload)))] of
        Some user \<Rightarrow>
          (let tok = token_urlsafe c 32;
               expires_at = utcnow c + 3600
           in case user ''_id'' of
                None \<Rightarrow> (Inl (KeyError ''_id''), db)
              | Some uid \<Rightarrow>
                  (case create_document db c 0 ''passwordreset''
                          [''user_id'' \<mapsto> uid, ''token'' \<mapsto> VStr tok,
                           ''expires_at'' \<mapsto> VTime expires_at] of
                     (Inl e, db1) \<Rightarrow> (Inl e, db1)
                   | (Inr a, db1) \<Rightarrow> (Inr (''Reset email sent'', Some tok), db1)))
      | None \<Rightarrow> (Inr (''If an account exists, a reset email has been sent'', None), db))"

text \<open>
  \<^verbatim>\<open>rec.get("expires_at") and rec["expires_at"] < datetime.utcnow()\<close>: a missing or false
  value never expires, a \<^verbatim>\<open>datetime\<close> is compared, anything else cannot be compared with
  one.
\<close>

definition expired :: "dict \<Rightarrow> int \<Rightarrow> exn + bool" where
  "expired rec now =
     (let e = dict_get rec ''expires_at''
      in if \<not> truthy e then Inr False
         else (case e of VTime t \<Rightarrow> Inr (t < now) | _ \<Rightarrow> Inl TypeError))"

definition reset_password ::
  "'t libs \<Rightarrow> database \<Rightarrow> ctx \<Rightarrow> ResetPasswordRequest \<Rightarrow> (exn + string) \<times> database" where
  "reset_password L db c payload =
     (case get_documents db ''passwordreset'' [(''token'', VStr (token payload))] 1 of
        [] \<Rightarrow> (Inl (HTTPException 400 ''Invalid token''), db)
      | rec # rest \<Rightarrow>
          (case expired rec (utcnow c) of
             Inl e \<Rightarrow> (Inl e, db)
           | Inr is_expired \<Rightarrow>
               if is_expired then (Inl (HTTPException 400 ''Token expired''), db)
               else (let hashed = get_password_hash L c (new_password payload)
                     in case rec ''user_id'' of
                          None \<Rightarrow> (Inl (KeyError ''user_id''), db)
                        | Some uid \<Rightarrow>
                            (case filter_id uid of
                               Inl e \<Rightarrow> (Inl e, db)
                             | Inr fid \<Rightarrow>
                                 (Inr ''Password updated'',
                                  db(''user'' :=
                                       update_one [(''_id'', fid)]
                                         [''password'' \<mapsto> VStr hashed,
                                          ''updated_at'' \<mapsto> VTime (utcnow c)]
                                         (db ''user'')))))))"

text \<open>Requests against one reset flow, one after the other.\<close>

fun reset_all ::
  "'t libs \<Rightarrow> database \<Rightarrow> (ctx \<times> ResetPasswordRequest) list
     \<Rightarrow> (exn + string) list \<times> database" where
  "reset_all L db [] = ([], db)"
| "reset_all L db (cp # rest) =
     (let r = reset_password L db (fst cp) (snd cp);
          rs = reset_all L (snd r) rest
      in (fst r # fst rs, snd rs))"

subsection \<open>Admin only\<close>



subsection \<open>A reference instance of the libraries\<close>

text \<open>
  A symbolic token library and a toy hash, used to run the handlers on concrete requests: a
  token is either the claims together with the key and algorithm that signed them, or a string
  that does not parse.
\<close>

datatype sym_token = Signed dict string string | Unparsable string

definition ref_decode :: "sym_token \<Rightarrow> string \<Rightarrow> string list \<Rightarrow> int \<Rightarrow> jwt_error + dict" where
  "ref_decode t key algorithms now =
     (case t of
        Unparsable s \<Rightarrow> Inl JWTError
      | Signed claims k alg \<Rightarrow>
          if alg \<notin> set algorithms then Inl JWTError
          else if k \<noteq> key then Inl JWTError
          else (case claims ''exp'' of
                  None \<Rightarrow> Inr claims
                | Some (VTime e) \<Rightarrow> if e < now then Inl ExpiredSignatureError else Inr claims
                | Some x \<Rightarrow> Inl JWTClaimsError))"

definition ref_hash :: "string \<Rightarrow> string \<Rightarrow> string" where
  "ref_hash s secret = ''$2b$12$'' @ take 22 (s @ replicate 22 (CHR ''.'')) @ secret"

definition ref_verify :: "string \<Rightarrow> string \<Rightarrow> exn + bool" where
  "ref_verify secret h = (if length h < 29 then Inl MalformedHashError else Inr (drop 29 h = secret))"

definition ref_libs :: "sym_token libs" where
  "ref_libs = \<lparr>jwt_encode = Signed, jwt_decode = ref_decode,
               bcrypt_hash = ref_hash, bcrypt_verify = ref_verify\<rparr>"

text \<open>What the handlers need from the libraries.\<close>

definition jwt_roundtrip :: "'t libs \<Rightarrow> bool" where
  "jwt_roundtrip L =
     (\<forall>claims key alg e now. claims ''exp'' = Some (VTime e) \<and> now \<le> e
        \<longrightarrow> jwt_decode L (jwt_encode L claims key alg) key [alg] now = Inr claims)"

definition hash_correct :: "'t libs \<Rightarrow> bool" where
  "hash_correct L =
     (\<forall>s p q. bcrypt_identify (bcrypt_hash L s q)
              \<and> bcrypt_verify L p (bcrypt_hash L s q) = Inr (p = q))"

subsection \<open>Sample configuration and requests\<close>




section \<open>Properties\<close>

subsection \<open>Text generation without a provider\<close>

lemma get_openai_client_no_key:
  "OPENAI_API_KEY pe = None \<or> OPENAI_API_KEY pe = Some [] \<Longrightarrow> get_openai_client pe = None"
  by (auto simp: get_openai_client_def)

lemma fallback_unfold:
  "fallback prompt =
     ''[AI Fallback] Thanks for trying PortfolioPal!'' @ NL
     @ ''This is a locally generated sample response because no AI key was detected.'' @ NL
     @ ''Add OPENAI_API_KEY to enable real AI results.'' @ NL
     @ NL @ ''---'' @ NL @ NL @ take 1000 prompt"
  by (simp add: fallback_def fallback_lines_def)

text \<open>
  Claim C10, as the code has it. When no API key is present (\<^verbatim>\<open>OPENAI_API_KEY\<close> unset or
  empty), \<^verbatim>\<open>ai_generate\<close> of \<^verbatim>\<open>src/main.py\<close> returns the local fallback template:
  \<^verbatim>\<open>[AI Fallback] \<close>, the fixed disclaimer lines and then the first 1000 characters of the
  prompt; the project-writer route of \<^verbatim>\<open>src/main.py\<close> returns it for the prompt it builds.
  The \<^verbatim>\<open>project_writer\<close> route of \<^verbatim>\<open>src/backend/main.py\<close> calls no provider and returns
  its own template of the request fields, which is never the fallback template.
\<close>

theorem ai_generate_without_key:
  assumes "OPENAI_API_KEY pe = None \<or> OPENAI_API_KEY pe = Some []"
  shows "ai_generate pe prompt = fallback prompt
       \<and> generate_project_writer pe body = fallback (project_prompt body)
       \<and> sublist ''This is a locally generated sample response because no AI key was detected.''
            (ai_generate pe prompt)
       \<and> suffix (take 1000 prompt) (ai_generate pe prompt)
       \<and> project_writer payload \<noteq> fallback prompt"
proof -
  from assms have none: "get_openai_client pe = None"
    by (rule get_openai_client_no_key)
  have gen: "ai_generate pe p = fallback p" for p
    by (simp add: ai_generate_def none)
  have route: "generate_project_writer pe body = fallback (project_prompt body)"
    by (simp add: generate_project_writer_def gen)
  have disclaimer:
    "sublist ''This is a locally generated sample response because no AI key was detected.''
       (fallback prompt)"
  proof -
    have "fallback prompt =
        (''[AI Fallback] Thanks for trying PortfolioPal!'' @ NL)
        @ ''This is a locally generated sample response because no AI key was detected.''
        @ (NL @ ''Add OPENAI_API_KEY to enable real AI results.'' @ NL
           @ NL @ ''---'' @ NL @ NL @ take 1000 prompt)"
      by (simp only: fallback_unfold append_assoc)
    then show ?thesis
      by (simp only: sublist_appendI)
  qed
  have echo: "suffix (take 1000 prompt) (fallback prompt)"
    unfolding fallback_unfold by (simp add: suffix_def)
  have other: "project_writer payload \<noteq> fallback prompt"
    by (simp add: project_writer_def fallback_unfold)
  from gen route disclaimer echo other show ?thesis
    by simp
qed

theorem ai_generate_without_key_witness:
  "ai_generate \<lparr>OPENAI_API_KEY = None, OpenAI = (\<lambda>k. None)\<rparr> ''Describe my shop''
     = ''[AI Fallback] Thanks for trying PortfolioPal!'' @ NL
       @ ''This is a locally generated sample response because no AI key was detected.'' @ NL
       @ ''Add OPENAI_API_KEY to enable real AI results.'' @ NL
       @ NL @ ''---'' @ NL @ NL @ ''Describe my shop''"
  using ai_generate_without_key [of "\<lparr>OPENAI_API_KEY = None, OpenAI = (\<lambda>k. None)\<rparr>"
          "''Describe my shop''"]
  by (simp add: fallback_unfold)

text \<open>
  The claim as stated fails on the backend application: its project writer is a text-generation
  request served with no provider configured, and the text it returns does not contain the
  disclaimer.
\<close>

theorem project_writer_no_disclaimer:
  "\<not> sublist ''This is a locally generated sample response because no AI key was detected.''
       (project_writer \<lparr>b_title = ''Shop'', b_description = ''A web shop'',
          b_technologies = [''Python''], b_audience = ''Hiring managers'',
          b_tone = ''professional''\<rparr>)"
proof
  assume "sublist ''This is a locally generated sample response because no AI key was detected.''
       (project_writer \<lparr>b_title = ''Shop'', b_description = ''A web shop'',
          b_technologies = [''Python''], b_audience = ''Hiring managers'',
          b_tone = ''professional''\<rparr>)"
  then have "set ''This is a locally generated sample response because no AI key was detected.''
       \<subseteq> set (project_writer \<lparr>b_title = ''Shop'', b_description = ''A web shop'',
          b_technologies = [''Python''], b_audience = ''Hiring managers'',
          b_tone = ''professional''\<rparr>)"
    by (rule set_mono_sublist)
  then show False
    by (simp add: project_writer_def NL_def)
qed

subsection \<open>Session verification\<close>



subsection \<open>Password verification\<close>

text \<open>
  Claim C7, as the code has it. \<^verbatim>\<open>verify_password\<close> returns what the password context
  returns and handles no exception of its own: a hash of \<^verbatim>\<open>None\<close> gives \<^verbatim>\<open>False\<close>, a
  hash the context identifies goes to the scheme's verify, and a hash string the context does
  not identify (the empty string among them) raises \<^verbatim>\<open>UnknownHashError\<close> to the caller.
\<close>

theorem verify_password_passes_on:
  "verify_password L plain hashed = pwd_context_verify L plain hashed
   \<and> verify_password L plain VNone = Inr False
   \<and> (bcrypt_identify h \<longrightarrow> verify_password L plain (VStr h) = bcrypt_verify L plain h)
   \<and> (\<not> bcrypt_identify h \<longrightarrow> verify_password L plain (VStr h) = Inl UnknownHashError)"
  by (simp add: verify_password_def pwd_context_verify_def)

theorem verify_password_passes_on_witness:
  "verify_password ref_libs ''password123'' (VStr ''not-a-hash'') = Inl UnknownHashError
   \<and> verify_password ref_libs ''password123'' (VStr ''$2b$'') = Inl MalformedHashError"
  using verify_password_passes_on [of ref_libs "''password123''" VNone "''not-a-hash''"]
    verify_password_passes_on [of ref_libs "''password123''" VNone "''$2b$''"]
  by (simp add: bcrypt_identify_def ref_libs_def ref_verify_def)

text \<open>The claim as stated fails on the empty hash string: the call raises.\<close>

theorem verify_password_empty_hash_raises:
  "verify_password ref_libs ''password123'' (VStr []) = Inl UnknownHashError"
  by (simp add: verify_password_def pwd_context_verify_def bcrypt_identify_def)

subsection \<open>The admin gate\<close>




end
